theory Spec2Isabelle
  imports Main "HOL-Library.Sublist"
begin

section \<open>JavaScript strings\<close>

text \<open>
  Ability names, descriptions, tags and labels are modelled as \<open>string\<close> (a list of
  8-bit characters). \<open>String.prototype.toLowerCase\<close> is modelled on the ASCII letters
  \<open>A\<close>..\<open>Z\<close>; every other character is left alone. \<open>String.prototype.includes\<close> is the
  test for a contiguous occurrence of the pattern.
\<close>

definition toLowerCase :: "string \<Rightarrow> string" where
  "toLowerCase s =
     map (\<lambda>c. let n = (of_char c :: nat) in if 65 \<le> n \<and> n \<le> 90 then char_of (n + 32) else c) s"

fun str_includes :: "string \<Rightarrow> string \<Rightarrow> bool" where
  "str_includes [] pat = (pat = [])"
| "str_includes (c # cs) pat = (prefix pat (c # cs) \<or> str_includes cs pat)"

section \<open>The web application (app.js)\<close>

subsection \<open>Data\<close>

text \<open>
  A classification object \<open>{ type, ccType, cleansable, qssOnly, color, note }\<close>. The fields
  \<open>qssOnly\<close> and \<open>note\<close> are absent from most object literals of the source; an absent
  field (\<open>undefined\<close>) is \<open>None\<close>.
\<close>

record classification =
  type :: string
  ccType :: string
  cleansable :: bool
  qssOnly :: "bool option"
  color :: string
  cnote :: "string option"

text \<open>
  A spell of the champion detail data; only the two fields read by the classifier are
  kept. Both are read through \<open>?.\<close>, so either may be missing.
\<close>

record spell =
  spell_name :: "string option"
  description :: "string option"

text \<open>
  The curated data of champions-summary.json: per champion an optional array
  \<open>abilities\<close> whose entries (possibly \<open>null\<close>) carry an optional array \<open>threat\<close> of tags.
  The overlay also reads \<open>name\<close> and \<open>slug\<close> of an entry.
\<close>

record abilitySummary =
  threat :: "string list option"

record summaryEntry =
  sname :: string
  slug :: string
  abilities :: "abilitySummary option list option"

record champion =
  champ_id :: string
  champ_name :: string
  champ_tags :: "string list"

record detail =
  spells :: "spell list option"

text \<open>
  The entries built by \<open>analyzeThreats\<close>. An icon is the list of the Unicode code points
  of the emoji string.
\<close>

record threatEntry =
  alabel :: string
  severity :: string
  icon :: "nat list"
  acleansable :: bool
  aqssOnly :: bool

subsection \<open>classifyThreatTags\<close>

text \<open>The object literal \<open>{ type, ccType, cleansable, qssOnly, color }\<close> of the table.\<close>

definition cls :: "string \<Rightarrow> string \<Rightarrow> bool \<Rightarrow> bool option \<Rightarrow> string \<Rightarrow> classification" where
  "cls t l c q col = \<lparr>type = t, ccType = l, cleansable = c, qssOnly = q, color = col, cnote = None\<rparr>"

definition ccClassificationsTable :: "(string \<times> classification) list" where
  "ccClassificationsTable =
    [(''KNOCKUP'', cls ''hard'' ''Knockup'' False (Some False) ''hard''),
     (''KNOCKBACK'', cls ''hard'' ''Knockback'' False (Some False) ''hard''),
     (''PULL'', cls ''hard'' ''Pull'' False (Some False) ''hard''),
     (''SUPPRESSION'', cls ''suppression'' ''Suppression'' False (Some True) ''hard''),
     (''NEARSIGHT'', cls ''hard'' ''Nearsight'' False (Some False) ''hard''),
     (''STUN'', cls ''hard'' ''Stun'' True None ''hard''),
     (''ROOT'', cls ''hard'' ''Root'' True None ''hard''),
     (''SNARE'', cls ''hard'' ''Root'' True None ''hard''),
     (''SLEEP'', cls ''hard'' ''Sleep'' True None ''hard''),
     (''CHARM'', cls ''hard'' ''Charm'' True None ''hard''),
     (''FEAR'', cls ''hard'' ''Fear'' True None ''hard''),
     (''TAUNT'', cls ''hard'' ''Taunt'' True None ''hard''),
     (''POLYMORPH'', cls ''hard'' ''Polymorph'' True None ''hard''),
     (''SLOW'', cls ''soft'' ''Slow'' True None ''soft''),
     (''SILENCE'', cls ''soft'' ''Silence'' True None ''soft''),
     (''BLIND'', cls ''soft'' ''Blind'' True None ''soft''),
     (''DISARM'', cls ''soft'' ''Disarm'' True None ''soft''),
     (''GROUNDED'', cls ''soft'' ''Grounded'' True None ''soft''),
     (''CRIPPLE'', cls ''soft'' ''Cripple'' True None ''soft''),
     (''GAP_CLOSE'', cls ''high'' ''Mobility'' False None ''high''),
     (''DASH'', cls ''high'' ''Dash'' False None ''high''),
     (''STEALTH'', cls ''high'' ''Stealth'' False None ''high''),
     (''DODGE'', cls ''high'' ''Dodge'' False None ''high''),
     (''PROJECTILE_BLOCK'', cls ''high'' ''Projectile Block'' False None ''high''),
     (''UNBREAKABLE_WALL'', cls ''high'' ''Unbreakable Wall'' False None ''high''),
     (''BURST'', cls ''high'' ''Burst'' False None ''high''),
     (''SHIELD_PEEL'', cls ''medium'' ''Shield'' False None ''medium''),
     (''SHIELD'', cls ''medium'' ''Shield'' False None ''medium''),
     (''BREAKABLE_WALL'', cls ''medium'' ''Breakable Wall'' False None ''medium''),
     (''REVEAL'', cls ''medium'' ''Reveal'' False None ''medium''),
     (''SUSTAIN'', cls ''low'' ''Sustain'' False None ''low''),
     (''GHOST'', cls ''low'' ''Ghost'' False None ''low'')]"

text \<open>\<open>ccClassifications[key]\<close>: the entry stored under the key, \<open>undefined\<close> otherwise.\<close>

definition ccClassifications :: "string \<Rightarrow> classification option" where
  "ccClassifications key = map_of ccClassificationsTable key"

definition priorityOrder :: "string list" where
  "priorityOrder =
    [''SUPPRESSION'', ''NEARSIGHT'',
     ''KNOCKUP'', ''KNOCKBACK'', ''PULL'',
     ''STUN'', ''ROOT'', ''SNARE'', ''CHARM'', ''FEAR'', ''TAUNT'', ''SLEEP'', ''POLYMORPH'',
     ''SILENCE'', ''BLIND'', ''DISARM'', ''GROUNDED'', ''CRIPPLE'', ''SLOW'',
     ''DODGE'', ''PROJECTILE_BLOCK'', ''UNBREAKABLE_WALL'', ''STEALTH'', ''GAP_CLOSE'', ''DASH'',
     ''BREAKABLE_WALL'', ''REVEAL'', ''SHIELD_PEEL'', ''SHIELD'',
     ''SUSTAIN'', ''GHOST'']"

text \<open>
  The loop \<open>for (const ccType of priorityOrder)\<close> pushes \<open>ccClassifications[ccType]\<close>
  for every entry of the priority list that the tag array includes. The result is an
  array whose elements are classification objects or \<open>undefined\<close>/\<open>null\<close> (\<open>None\<close>).
\<close>

definition classifyThreatTags :: "string list \<Rightarrow> classification option list" where
  "classifyThreatTags threatTags =
     (if threatTags = [] then []
      else foldl (\<lambda>matchedClassifications ccType.
                    if ccType \<in> set threatTags
                    then matchedClassifications @ [ccClassifications ccType]
                    else matchedClassifications)
                 [] priorityOrder)"

subsection \<open>classifyCC\<close>

definition classifyCC :: "spell \<Rightarrow> classification option" where
  "classifyCC sp =
    (let desc = (case description sp of Some d \<Rightarrow> toLowerCase d | None \<Rightarrow> '''');
         name = (case spell_name sp of Some n \<Rightarrow> toLowerCase n | None \<Rightarrow> '''')
     in
     if str_includes desc ''suppress'' \<or> str_includes desc ''suppression'' then
       Some \<lparr>type = ''suppression'', ccType = ''Suppression'', cleansable = False,
             qssOnly = Some True, color = ''hard'', cnote = None\<rparr>
     else if str_includes desc ''knock'' \<or> str_includes desc ''airborne'' \<or> str_includes name ''knock'' then
       Some \<lparr>type = ''hard'', ccType = ''Airborne'', cleansable = False,
             qssOnly = None, color = ''hard'',
             cnote = Some ''Partial - disabling can be removed, not movement''\<rparr>
     else if str_includes desc ''pull'' \<or> str_includes desc ''drag'' then
       Some \<lparr>type = ''hard'', ccType = ''Pull'', cleansable = False,
             qssOnly = None, color = ''hard'',
             cnote = Some ''Partial - disabling can be removed, not movement''\<rparr>
     else if str_includes desc ''nearsight'' \<or> str_includes desc ''blind zone'' then
       Some (cls ''hard'' ''Nearsight'' False None ''hard'')
     else if str_includes desc ''stun'' then
       Some (cls ''soft'' ''Stun'' True None ''soft'')
     else if str_includes desc ''root'' \<or> str_includes desc ''immobilize'' \<or> str_includes desc ''snare'' then
       Some (cls ''soft'' ''Root'' True None ''soft'')
     else if str_includes desc ''slow'' then
       Some (cls ''soft'' ''Slow'' True None ''soft'')
     else if str_includes desc ''charm'' then
       Some (cls ''soft'' ''Charm'' True None ''soft'')
     else if str_includes desc ''fear'' \<or> str_includes desc ''flee'' then
       Some (cls ''soft'' ''Fear'' True None ''soft'')
     else if str_includes desc ''taunt'' then
       Some (cls ''soft'' ''Taunt'' True None ''soft'')
     else if str_includes desc ''silence'' then
       Some (cls ''soft'' ''Silence'' True None ''soft'')
     else if str_includes desc ''blind'' then
       Some (cls ''soft'' ''Blind'' True None ''soft'')
     else if str_includes desc ''disarm'' then
       Some (cls ''soft'' ''Disarm'' True None ''soft'')
     else if str_includes desc ''cripple''
             \<or> (str_includes desc ''attack speed'' \<and> str_includes desc ''reduc'') then
       Some (cls ''soft'' ''Cripple'' True None ''soft'')
     else if str_includes desc ''sleep'' \<or> str_includes desc ''drowsy'' then
       Some (cls ''soft'' ''Sleep'' True None ''soft'')
     else if str_includes desc ''dash'' \<or> str_includes desc ''blink'' \<or> str_includes desc ''leap''
             \<or> str_includes name ''dash'' \<or> str_includes name ''leap'' then
       Some (cls ''high'' ''Mobility'' False None ''high'')
     else if str_includes desc ''burst''
             \<or> (str_includes desc ''damage'' \<and> str_includes desc ''bonus'')
             \<or> str_includes desc ''maximum health'' \<or> str_includes desc ''missing health'' then
       Some (cls ''high'' ''Burst'' False None ''high'')
     else if str_includes desc ''stealth'' \<or> str_includes desc ''invisible''
             \<or> str_includes desc ''camouflage'' then
       Some (cls ''high'' ''Stealth'' False None ''high'')
     else if str_includes desc ''shield'' then
       Some (cls ''medium'' ''Shield'' False None ''medium'')
     else if str_includes desc ''poke'' then
       Some (cls ''medium'' ''Poke'' False None ''medium'')
     else if str_includes desc ''heal'' \<or> str_includes desc ''his maximum health''
             \<or> str_includes desc ''her maximum health'' \<or> str_includes desc ''regenerat'' then
       Some (cls ''low'' ''Sustain'' False None ''low'')
     else None)"

subsection \<open>classifyAbility\<close>

text \<open>\<open>summaryData?.abilities?.[abilityIndex]\<close>: \<open>None\<close> when any link of the chain is missing.\<close>

definition summaryAbility :: "summaryEntry option \<Rightarrow> nat \<Rightarrow> abilitySummary option" where
  "summaryAbility summaryData abilityIndex =
     (case summaryData of
        None \<Rightarrow> None
      | Some s \<Rightarrow>
          (case abilities s of
             None \<Rightarrow> None
           | Some as \<Rightarrow> if abilityIndex < length as then as ! abilityIndex else None))"

text \<open>\<open>summaryData.abilities[abilityIndex].threat || []\<close>.\<close>

definition curatedTags :: "abilitySummary \<Rightarrow> string list" where
  "curatedTags a = (case threat a of Some ts \<Rightarrow> ts | None \<Rightarrow> [])"

definition nonCCThreats :: "string list" where
  "nonCCThreats = [''Shield'', ''Sustain'', ''Burst'', ''Poke'', ''Stealth'', ''Mobility'']"

definition classifyAbility ::
  "spell \<Rightarrow> summaryEntry option \<Rightarrow> nat \<Rightarrow> bool \<Rightarrow> classification option list" where
  "classifyAbility sp summaryData abilityIndex allowFallbackCC =
    (let (classifications, hasAbilitySummary) =
           (case summaryAbility summaryData abilityIndex of
              Some a \<Rightarrow>
                (classifyThreatTags (curatedTags a), True)
            | None \<Rightarrow> ([], False))
     in
     if classifications = [] then
       (let descClassification = classifyCC sp in
        if (case descClassification of
              Some d \<Rightarrow> ccType d \<in> set nonCCThreats
            | None \<Rightarrow> False)
        then [descClassification]
        else if allowFallbackCC \<and> \<not> hasAbilitySummary then [descClassification]
        else classifications)
     else classifications)"

subsection \<open>analyzeThreats\<close>

definition threatIcons :: "(string \<times> nat list) list" where
  "threatIcons =
    [(''Knockup'', [127786, 65039]),
     (''Knockback'', [128168]),
     (''Pull'', [129693]),
     (''Suppression'', [128274]),
     (''Nearsight'', [127787, 65039]),
     (''Stun'', [9889]),
     (''Root'', [127807]),
     (''Sleep'', [128564]),
     (''Charm'', [128149]),
     (''Fear'', [128561]),
     (''Taunt'', [128545]),
     (''Polymorph'', [128017]),
     (''Slow'', [128012]),
     (''Silence'', [129296]),
     (''Blind'', [128584]),
     (''Disarm'', [128683]),
     (''Grounded'', [9875]),
     (''Cripple'', [129460]),
     (''Mobility'', [127939]),
     (''Dash'', [128168]),
     (''Stealth'', [128123]),
     (''Dodge'', [127744]),
     (''Projectile Block'', [129521]),
     (''Unbreakable Wall'', [128511]),
     (''Shield'', [128737, 65039]),
     (''Breakable Wall'', [129521]),
     (''Reveal'', [128065, 65039]),
     (''Sustain'', [128154]),
     (''Ghost'', [128100]),
     (''Airborne'', [127786, 65039]),
     (''Burst'', [128165]),
     (''Poke'', [127919])]"

definition getThreatIcon :: "string \<Rightarrow> nat list" where
  "getThreatIcon l = (case map_of threatIcons l of Some i \<Rightarrow> i | None \<Rightarrow> [9888, 65039])"

text \<open>
  \<open>state.championsSummary[champion.name] || state.championsSummary[champion.id]\<close>, the
  summary object being a map from names and slugs to entries.
\<close>

definition lookupSummary :: "(string \<rightharpoonup> summaryEntry) \<Rightarrow> string \<Rightarrow> string \<Rightarrow> summaryEntry option" where
  "lookupSummary championsSummary nm ident =
     (case championsSummary nm of Some s \<Rightarrow> Some s | None \<Rightarrow> championsSummary ident)"

text \<open>
  The body of the inner \<open>forEach\<close>: a classification that is not \<open>null\<close> and whose
  \<open>ccType\<close> has not been seen is pushed and its \<open>ccType\<close> recorded. The state is the
  pair of the array \<open>threats\<close> and the set \<open>seenTypes\<close>.
\<close>

definition pushThreat ::
  "threatEntry list \<times> string set \<Rightarrow> classification option \<Rightarrow> threatEntry list \<times> string set" where
  "pushThreat st classification =
     (case classification of
        None \<Rightarrow> st
      | Some c \<Rightarrow>
          if ccType c \<in> snd st then st
          else (fst st @
                  [\<lparr>alabel = ccType c,
                    severity = (if type c = ''hard'' then ''high''
                                else if type c = ''suppression'' then ''high''
                                else if type c = ''soft'' then ''medium''
                                else type c),
                    icon = getThreatIcon (ccType c),
                    acleansable = cleansable c,
                    aqssOnly = (case qssOnly c of Some b \<Rightarrow> b | None \<Rightarrow> False)\<rparr>],
                insert (ccType c) (snd st)))"

definition analyzeThreats ::
  "(string \<rightharpoonup> summaryEntry) \<Rightarrow> detail \<Rightarrow> champion \<Rightarrow> threatEntry list" where
  "analyzeThreats championsSummary det champ =
    (let spellList = (case spells det of Some ss \<Rightarrow> ss | None \<Rightarrow> []);
         summaryData = lookupSummary championsSummary (champ_name champ) (champ_id champ);
         final = foldl (\<lambda>st (i, sp). foldl pushThreat st (classifyAbility sp summaryData i True))
                       ([], {}) (enumerate 0 spellList)
     in take 10 (fst final))"

section \<open>The overlay (ThreatAnalyzer)\<close>

subsection \<open>Data\<close>

text \<open>
  A threat object \<open>{ type, label, cleansable, qssOnly, color, abilityIndex, abilityKey }\<close>.
  \<open>qssOnly\<close> is present on the suppression entry only; \<open>abilityIndex\<close> and
  \<open>abilityKey\<close> are added by \<open>analyzeAbility\<close>.
\<close>

record threat =
  ttype :: string
  label :: string
  tcleansable :: bool
  tqssOnly :: "bool option"
  tcolor :: string
  abilityIndex :: "nat option"
  abilityKey :: "string option"

text \<open>The champion object handed to the overlay; \<open>tags\<close> is read as \<open>champion.tags || []\<close>.\<close>

record overlayChampion =
  o_id :: string
  o_name :: string
  o_tags :: "string list option"

text \<open>
  The summary data in either of its two formats: an object with an array \<open>champions\<close>,
  or an object keyed by champion name or id.
\<close>

record championsSummaryData =
  champions :: "summaryEntry list option"
  keyed :: "string \<rightharpoonup> summaryEntry"

definition thr :: "string \<Rightarrow> string \<Rightarrow> bool \<Rightarrow> bool option \<Rightarrow> string \<Rightarrow> threat" where
  "thr t l c q col =
     \<lparr>ttype = t, label = l, tcleansable = c, tqssOnly = q, tcolor = col,
      abilityIndex = None, abilityKey = None\<rparr>"

definition CC_CLASSIFICATIONS_TABLE :: "(string \<times> threat) list" where
  "CC_CLASSIFICATIONS_TABLE =
    [(''KNOCKUP'', thr ''hard'' ''Knockup'' False None ''hard''),
     (''KNOCKBACK'', thr ''hard'' ''Knockback'' False None ''hard''),
     (''PULL'', thr ''hard'' ''Pull'' False None ''hard''),
     (''NEARSIGHT'', thr ''hard'' ''Nearsight'' False None ''hard''),
     (''SUPPRESSION'', thr ''suppression'' ''Suppression'' False (Some True) ''hard''),
     (''STUN'', thr ''hard'' ''Stun'' True None ''hard''),
     (''ROOT'', thr ''hard'' ''Root'' True None ''hard''),
     (''SNARE'', thr ''hard'' ''Root'' True None ''hard''),
     (''SLEEP'', thr ''hard'' ''Sleep'' True None ''hard''),
     (''CHARM'', thr ''hard'' ''Charm'' True None ''hard''),
     (''FEAR'', thr ''hard'' ''Fear'' True None ''hard''),
     (''TAUNT'', thr ''hard'' ''Taunt'' True None ''hard''),
     (''POLYMORPH'', thr ''hard'' ''Polymorph'' True None ''hard''),
     (''SLOW'', thr ''soft'' ''Slow'' True None ''soft''),
     (''SILENCE'', thr ''soft'' ''Silence'' True None ''soft''),
     (''BLIND'', thr ''soft'' ''Blind'' True None ''soft''),
     (''DISARM'', thr ''soft'' ''Disarm'' True None ''soft''),
     (''GROUNDED'', thr ''soft'' ''Grounded'' True None ''soft''),
     (''CRIPPLE'', thr ''soft'' ''Cripple'' True None ''soft''),
     (''GAP_CLOSE'', thr ''high'' ''Mobility'' False None ''high''),
     (''DASH'', thr ''high'' ''Dash'' False None ''high''),
     (''STEALTH'', thr ''high'' ''Stealth'' False None ''high''),
     (''DODGE'', thr ''high'' ''Dodge'' False None ''high''),
     (''PROJECTILE_BLOCK'', thr ''high'' ''Block'' False None ''high''),
     (''BURST'', thr ''high'' ''Burst'' False None ''high''),
     (''SHIELD'', thr ''medium'' ''Shield'' False None ''medium''),
     (''SHIELD_PEEL'', thr ''medium'' ''Shield'' False None ''medium''),
     (''SUSTAIN'', thr ''low'' ''Sustain'' False None ''low''),
     (''GHOST'', thr ''low'' ''Ghost'' False None ''low'')]"

text \<open>
  \<open>this.CC_CLASSIFICATIONS[tag]\<close>, looked up among the keys of the object literal (a tag
  naming a member inherited from \<open>Object.prototype\<close> is outside the model).
\<close>

definition CC_CLASSIFICATIONS :: "string \<Rightarrow> threat option" where
  "CC_CLASSIFICATIONS tag = map_of CC_CLASSIFICATIONS_TABLE tag"

text \<open>The overlay's priority list. No function of the overlay reads it.\<close>

definition PRIORITY_ORDER :: "string list" where
  "PRIORITY_ORDER =
    [''SUPPRESSION'', ''NEARSIGHT'',
     ''KNOCKUP'', ''KNOCKBACK'', ''PULL'',
     ''STUN'', ''ROOT'', ''SNARE'', ''CHARM'', ''FEAR'', ''TAUNT'', ''SLEEP'', ''POLYMORPH'',
     ''SILENCE'', ''BLIND'', ''DISARM'', ''GROUNDED'', ''CRIPPLE'', ''SLOW'',
     ''DODGE'', ''PROJECTILE_BLOCK'', ''STEALTH'', ''GAP_CLOSE'', ''DASH'', ''BURST'',
     ''SHIELD_PEEL'', ''SHIELD'',
     ''SUSTAIN'', ''GHOST'']"

subsection \<open>findChampionSummary, analyzeAbility, analyzeFromTags\<close>

definition findChampionSummary ::
  "overlayChampion \<Rightarrow> championsSummaryData option \<Rightarrow> summaryEntry option" where
  "findChampionSummary ch championsSummary =
     (case championsSummary of
        None \<Rightarrow> None
      | Some cs \<Rightarrow>
          (case champions cs of
             Some lst \<Rightarrow> find (\<lambda>c. sname c = o_name ch \<or> slug c = o_id ch) lst
           | None \<Rightarrow>
               (case keyed cs (o_name ch) of
                  Some s \<Rightarrow> Some s
                | None \<Rightarrow> keyed cs (o_id ch))))"

text \<open>\<open>['Q', 'W', 'E', 'R'][index]\<close>, \<open>undefined\<close> from index 4 on.\<close>

definition abilityKeyAt :: "nat \<Rightarrow> string option" where
  "abilityKeyAt index =
     (if index < 4 then Some ([''Q'', ''W'', ''E'', ''R''] ! index) else None)"

definition analyzeAbility :: "abilitySummary option \<Rightarrow> nat \<Rightarrow> threat list" where
  "analyzeAbility ability index =
     (case ability of
        None \<Rightarrow> []
      | Some a \<Rightarrow>
          (case threat a of
             None \<Rightarrow> []
           | Some ts \<Rightarrow>
               if ts = [] then []
               else foldl (\<lambda>threats tag.
                             case CC_CLASSIFICATIONS tag of
                               Some c \<Rightarrow>
                                 threats @ [c\<lparr>abilityIndex := Some index,
                                              abilityKey := abilityKeyAt index\<rparr>]
                             | None \<Rightarrow> threats)
                          [] ts))"

definition analyzeFromTags :: "string list \<Rightarrow> threat list" where
  "analyzeFromTags tags =
     (if ''Assassin'' \<in> set tags then [thr ''high'' ''Assassin'' False None ''high''] else []) @
     (if ''Fighter'' \<in> set tags then [thr ''medium'' ''Fighter'' False None ''medium''] else []) @
     (if ''Tank'' \<in> set tags then [thr ''medium'' ''Tank'' False None ''medium''] else []) @
     (if ''Mage'' \<in> set tags then [thr ''medium'' ''Mage'' False None ''medium''] else [])"

subsection \<open>sortByPriority\<close>

text \<open>
  \<open>a.label.localeCompare(b.label)\<close> depends on the host's collation, so the sort takes
  it as the parameter \<open>lc\<close>. \<open>localeCompareAscii\<close> compares character codes; on the
  capitalised one-word labels of the tables it is the alphabetical order.
\<close>

fun localeCompareAscii :: "string \<Rightarrow> string \<Rightarrow> int" where
  "localeCompareAscii [] [] = 0"
| "localeCompareAscii [] (y # ys) = - 1"
| "localeCompareAscii (x # xs) [] = 1"
| "localeCompareAscii (x # xs) (y # ys) =
     (if (of_char x :: nat) < of_char y then - 1
      else if (of_char y :: nat) < of_char x then 1
      else localeCompareAscii xs ys)"

definition typeOrder :: "string \<Rightarrow> int option" where
  "typeOrder t =
     map_of [(''hard'', 0), (''suppression'', 1), (''soft'', 2),
             (''high'', 3), (''medium'', 4), (''low'', 5)] t"

text \<open>The comparator handed to \<open>Array.prototype.sort\<close>.\<close>

definition compareThreats :: "(string \<Rightarrow> string \<Rightarrow> int) \<Rightarrow> threat \<Rightarrow> threat \<Rightarrow> int" where
  "compareThreats lc a b =
     (let typeA = (case typeOrder (ttype a) of Some n \<Rightarrow> n | None \<Rightarrow> 99);
          typeB = (case typeOrder (ttype b) of Some n \<Rightarrow> n | None \<Rightarrow> 99)
      in if typeA \<noteq> typeB then typeA - typeB else lc (label a) (label b))"

text \<open>
  \<open>Array.prototype.sort\<close> is a stable sort: it is modelled as the stable insertion
  sort, an element going in front of the first element it does not compare greater than.
  For a comparator that is a consistent ordering every stable sort returns this list.
\<close>

fun insertBy :: "('a \<Rightarrow> 'a \<Rightarrow> int) \<Rightarrow> 'a \<Rightarrow> 'a list \<Rightarrow> 'a list" where
  "insertBy cmp x [] = [x]"
| "insertBy cmp x (y # ys) = (if cmp x y \<le> 0 then x # y # ys else y # insertBy cmp x ys)"

definition sortBy :: "('a \<Rightarrow> 'a \<Rightarrow> int) \<Rightarrow> 'a list \<Rightarrow> 'a list" where
  "sortBy cmp xs = foldr (insertBy cmp) xs []"

definition sortByPriority :: "(string \<Rightarrow> string \<Rightarrow> int) \<Rightarrow> threat list \<Rightarrow> threat list" where
  "sortByPriority lc threats = sortBy (compareThreats lc) threats"

subsection \<open>analyzeChampion\<close>

text \<open>
  The body of each inner \<open>forEach\<close> loop: a threat whose label has not been seen is
  pushed and its label recorded.
\<close>

definition pushUnseen :: "threat list \<times> string set \<Rightarrow> threat \<Rightarrow> threat list \<times> string set" where
  "pushUnseen st t =
     (if label t \<in> snd st then st else (fst st @ [t], insert (label t) (snd st)))"

text \<open>
  The first loop of \<open>analyzeChampion\<close>, over \<open>summary.abilities\<close> when
  \<open>summary?.abilities\<close> is there: the pair of \<open>threats\<close> and \<open>seenTypes\<close> after it.
\<close>

definition collectSummaryThreats :: "summaryEntry option \<Rightarrow> threat list \<times> string set" where
  "collectSummaryThreats summary =
     (case summary of
        None \<Rightarrow> ([], {})
      | Some s \<Rightarrow>
          (case abilities s of
             None \<Rightarrow> ([], {})
           | Some as \<Rightarrow>
               foldl (\<lambda>st (index, ability).
                        foldl pushUnseen st (analyzeAbility ability index))
                     ([], {}) (enumerate 0 as)))"

definition analyzeChampion ::
  "(string \<Rightarrow> string \<Rightarrow> int) \<Rightarrow> overlayChampion option \<Rightarrow> championsSummaryData option \<Rightarrow> threat list" where
  "analyzeChampion lc champ championsSummary =
     (case champ of
        None \<Rightarrow> []
      | Some ch \<Rightarrow>
          (let summary = findChampionSummary ch championsSummary;
               fromSummary = collectSummaryThreats summary;
               withFallback =
                 (if fst fromSummary = []
                  then foldl pushUnseen fromSummary
                         (analyzeFromTags (case o_tags ch of Some ts \<Rightarrow> ts | None \<Rightarrow> []))
                  else fromSummary)
           in sortByPriority lc (fst withFallback)))"

section \<open>The cascade of the text classifier, as a list\<close>

text \<open>
  The keyword predicates of \<open>classifyCC\<close> with their results, listed in the order in
  which the function tests them; \<open>firstMatch\<close> returns the result of the first
  predicate that holds. \<open>classifyCC\<close> is shown below to compute exactly this.
\<close>

definition ccCascade :: "((string \<Rightarrow> string \<Rightarrow> bool) \<times> classification) list" where
  "ccCascade =
    [(\<lambda>desc name. str_includes desc ''suppress'' \<or> str_includes desc ''suppression'',
        \<lparr>type = ''suppression'', ccType = ''Suppression'', cleansable = False,
             qssOnly = Some True, color = ''hard'', cnote = None\<rparr>),
     (\<lambda>desc name. str_includes desc ''knock'' \<or> str_includes desc ''airborne'' \<or> str_includes name ''knock'',
        \<lparr>type = ''hard'', ccType = ''Airborne'', cleansable = False,
             qssOnly = None, color = ''hard'',
             cnote = Some ''Partial - disabling can be removed, not movement''\<rparr>),
     (\<lambda>desc name. str_includes desc ''pull'' \<or> str_includes desc ''drag'',
        \<lparr>type = ''hard'', ccType = ''Pull'', cleansable = False,
             qssOnly = None, color = ''hard'',
             cnote = Some ''Partial - disabling can be removed, not movement''\<rparr>),
     (\<lambda>desc name. str_includes desc ''nearsight'' \<or> str_includes desc ''blind zone'',
        cls ''hard'' ''Nearsight'' False None ''hard''),
     (\<lambda>desc name. str_includes desc ''stun'', cls ''soft'' ''Stun'' True None ''soft''),
     (\<lambda>desc name. str_includes desc ''root'' \<or> str_includes desc ''immobilize'' \<or> str_includes desc ''snare'',
        cls ''soft'' ''Root'' True None ''soft''),
     (\<lambda>desc name. str_includes desc ''slow'', cls ''soft'' ''Slow'' True None ''soft''),
     (\<lambda>desc name. str_includes desc ''charm'', cls ''soft'' ''Charm'' True None ''soft''),
     (\<lambda>desc name. str_includes desc ''fear'' \<or> str_includes desc ''flee'',
        cls ''soft'' ''Fear'' True None ''soft''),
     (\<lambda>desc name. str_includes desc ''taunt'', cls ''soft'' ''Taunt'' True None ''soft''),
     (\<lambda>desc name. str_includes desc ''silence'', cls ''soft'' ''Silence'' True None ''soft''),
     (\<lambda>desc name. str_includes desc ''blind'', cls ''soft'' ''Blind'' True None ''soft''),
     (\<lambda>desc name. str_includes desc ''disarm'', cls ''soft'' ''Disarm'' True None ''soft''),
     (\<lambda>desc name. str_includes desc ''cripple''
             \<or> (str_includes desc ''attack speed'' \<and> str_includes desc ''reduc''),
        cls ''soft'' ''Cripple'' True None ''soft''),
     (\<lambda>desc name. str_includes desc ''sleep'' \<or> str_includes desc ''drowsy'',
        cls ''soft'' ''Sleep'' True None ''soft''),
     (\<lambda>desc name. str_includes desc ''dash'' \<or> str_includes desc ''blink'' \<or> str_includes desc ''leap''
             \<or> str_includes name ''dash'' \<or> str_includes name ''leap'',
        cls ''high'' ''Mobility'' False None ''high''),
     (\<lambda>desc name. str_includes desc ''burst''
             \<or> (str_includes desc ''damage'' \<and> str_includes desc ''bonus'')
             \<or> str_includes desc ''maximum health'' \<or> str_includes desc ''missing health'',
        cls ''high'' ''Burst'' False None ''high''),
     (\<lambda>desc name. str_includes desc ''stealth'' \<or> str_includes desc ''invisible''
             \<or> str_includes desc ''camouflage'',
        cls ''high'' ''Stealth'' False None ''high''),
     (\<lambda>desc name. str_includes desc ''shield'', cls ''medium'' ''Shield'' False None ''medium''),
     (\<lambda>desc name. str_includes desc ''poke'', cls ''medium'' ''Poke'' False None ''medium''),
     (\<lambda>desc name. str_includes desc ''heal'' \<or> str_includes desc ''his maximum health''
             \<or> str_includes desc ''her maximum health'' \<or> str_includes desc ''regenerat'',
        cls ''low'' ''Sustain'' False None ''low'')]"

text \<open>The two strings the predicates are tested on.\<close>

definition loweredDescription :: "spell \<Rightarrow> string" where
  "loweredDescription sp = (case description sp of Some d \<Rightarrow> toLowerCase d | None \<Rightarrow> '''')"

definition loweredName :: "spell \<Rightarrow> string" where
  "loweredName sp = (case spell_name sp of Some n \<Rightarrow> toLowerCase n | None \<Rightarrow> '''')"

definition firstMatch :: "string \<Rightarrow> string \<Rightarrow> classification option" where
  "firstMatch desc name = map_option snd (find (\<lambda>pr. fst pr desc name) ccCascade)"

section \<open>The threat classes of the ordering guarantee\<close>

text \<open>
  The classes in the order the specification ranks them: suppression and hard crowd
  control that is not cleansable (0), cleansable hard crowd control (1), soft crowd
  control (2), then the non-CC threats of kind high (3), medium (4) and low (5).
\<close>

definition threatClass :: "string \<Rightarrow> bool \<Rightarrow> nat" where
  "threatClass kind cleansableFlag =
     (if kind = ''suppression'' \<or> (kind = ''hard'' \<and> \<not> cleansableFlag) then 0
      else if kind = ''hard'' then 1
      else if kind = ''soft'' then 2
      else if kind = ''high'' then 3
      else if kind = ''medium'' then 4
      else if kind = ''low'' then 5
      else 6)"

text \<open>The class of an element of a web-app result, and of an overlay threat.\<close>

definition classOfClassification :: "classification option \<Rightarrow> nat" where
  "classOfClassification x =
     (case x of Some c \<Rightarrow> threatClass (type c) (cleansable c) | None \<Rightarrow> 6)"

definition classOfThreat :: "threat \<Rightarrow> nat" where
  "classOfThreat t = threatClass (ttype t) (tcleansable t)"

section \<open>The invariant of the aggregation\<close>

text \<open>
  The invariant of each loop of \<open>analyzeThreats\<close>: the labels pushed so far are pairwise
  different and all recorded in \<open>seenTypes\<close>.
\<close>

definition seenInvariant :: "threatEntry list \<times> string set \<Rightarrow> bool" where
  "seenInvariant st = (distinct (map alabel (fst st)) \<and> set (map alabel (fst st)) \<subseteq> snd st)"

text \<open>The same invariant for each loop of the overlay's \<open>analyzeChampion\<close>.\<close>

definition seenInvariantOverlay :: "threat list \<times> string set \<Rightarrow> bool" where
  "seenInvariantOverlay st = (distinct (map label (fst st)) \<and> set (map label (fst st)) \<subseteq> snd st)"

section \<open>Properties of the tag-based classifier\<close>

lemma foldl_push_filter:
  "foldl (\<lambda>acc x. if P x then acc @ [f x] else acc) acc xs = acc @ map f (filter P xs)"
  by (induction xs arbitrary: acc) auto

text \<open>The loop of \<open>classifyThreatTags\<close> is a filter of the priority list.\<close>

lemma classifyThreatTags_filter:
  "classifyThreatTags threatTags =
     map ccClassifications (filter (\<lambda>t. t \<in> set threatTags) priorityOrder)"
  by (simp add: classifyThreatTags_def foldl_push_filter)

text \<open>The output depends on the set of tags only, not on their order or multiplicity.\<close>

lemma classifyThreatTags_order_independent:
  "set ts = set ts' \<Longrightarrow> classifyThreatTags ts = classifyThreatTags ts'"
  by (simp add: classifyThreatTags_filter)

lemma classifyThreatTags_knockup_slow:
  "map (map_option ccType) (classifyThreatTags [''KNOCKUP'', ''SLOW'']) = [Some ''Knockup'', Some ''Slow'']
   \<and> map (map_option ccType) (classifyThreatTags [''SLOW'', ''KNOCKUP'']) = [Some ''Knockup'', Some ''Slow'']"
  by (simp add: classifyThreatTags_def priorityOrder_def ccClassifications_def
      ccClassificationsTable_def cls_def)

lemma priorityOrder_distinct: "distinct priorityOrder"
  by (simp add: priorityOrder_def)

text \<open>One classification per tag of the array that the priority list contains.\<close>

lemma classifyThreatTags_length:
  "length (classifyThreatTags tags) = card (set tags \<inter> set priorityOrder)"
proof -
  have "length (classifyThreatTags tags) = card ({t. t \<in> set tags} \<inter> set priorityOrder)"
    by (simp add: classifyThreatTags_filter distinct_length_filter priorityOrder_distinct)
  then show ?thesis by simp
qed

text \<open>
  Claim C3. The tag-based classifier is to return one classification per tag of the
  lookup table, in priority order. The tag \<open>BURST\<close> has an entry in the table
  \<open>ccClassifications\<close> but is missing from \<open>priorityOrder\<close>, the only list the loop
  walks: on the tag array \<open>["BURST"]\<close> the classifier returns the empty array.
\<close>

theorem classifyThreatTags_drops_burst:
  "ccClassifications ''BURST'' = Some (cls ''high'' ''Burst'' False None ''high'')
   \<and> ''BURST'' \<notin> set priorityOrder
   \<and> classifyThreatTags [''BURST''] = []"
  by (simp add: classifyThreatTags_def priorityOrder_def ccClassifications_def
      ccClassificationsTable_def)

lemma classifyThreatTags_root_snare_value:
  "classifyThreatTags [''ROOT'', ''SNARE''] =
     [Some (cls ''hard'' ''Root'' True None ''hard''), Some (cls ''hard'' ''Root'' True None ''hard'')]"
  by (simp add: classifyThreatTags_def priorityOrder_def ccClassifications_def
      ccClassificationsTable_def)

text \<open>
  Claim C10. For the tag array \<open>["ROOT", "SNARE"]\<close> the tag-based classifier returns two
  entries, both labelled \<open>Root\<close>; the duplicate label is removed only by the
  champion-level aggregation \<open>analyzeThreats\<close>, which keeps a single \<open>Root\<close> entry for
  an ability carrying these two tags.
\<close>

theorem classifyThreatTags_root_snare:
  "map (map_option ccType) (classifyThreatTags [''ROOT'', ''SNARE'']) = [Some ''Root'', Some ''Root'']
   \<and> map alabel (analyzeThreats
        [''Champ'' \<mapsto> \<lparr>sname = ''Champ'', slug = ''champ'',
                          abilities = Some [Some \<lparr>threat = Some [''ROOT'', ''SNARE'']\<rparr>]\<rparr>]
        \<lparr>spells = Some [\<lparr>spell_name = Some ''Q'', description = Some ''''\<rparr>]\<rparr>
        \<lparr>champ_id = ''Champ'', champ_name = ''Champ'', champ_tags = []\<rparr>) = [''Root'']"
  by (simp add: analyzeThreats_def lookupSummary_def classifyAbility_def summaryAbility_def
      curatedTags_def classifyThreatTags_root_snare_value pushThreat_def cls_def getThreatIcon_def)

section \<open>Properties of the text classifier\<close>

text \<open>\<open>classifyCC\<close> returns the result of the first predicate of the cascade that holds.\<close>

lemma classifyCC_firstMatch:
  "classifyCC sp = firstMatch (loweredDescription sp) (loweredName sp)"
  unfolding classifyCC_def firstMatch_def ccCascade_def loweredDescription_def loweredName_def Let_def
  by (simp only: find.simps fst_conv snd_conv if_distrib[of "map_option snd"] option.map)

lemma classifyCC_in_cascade:
  assumes "classifyCC sp = Some d"
  shows "d \<in> set (map snd ccCascade)"
proof -
  from assms obtain pr
    where "find (\<lambda>pr. fst pr (loweredDescription sp) (loweredName sp)) ccCascade = Some pr"
      and "d = snd pr"
    by (auto simp: classifyCC_firstMatch firstMatch_def)
  then show ?thesis by (auto simp: find_Some_iff)
qed

lemma cascade_labels:
  "map (\<lambda>pr. ccType (snd pr)) ccCascade =
     [''Suppression'', ''Airborne'', ''Pull'', ''Nearsight'',
      ''Stun'', ''Root'', ''Slow'', ''Charm'', ''Fear'', ''Taunt'', ''Silence'', ''Blind'',
      ''Disarm'', ''Cripple'', ''Sleep'',
      ''Mobility'', ''Burst'', ''Stealth'', ''Shield'', ''Poke'', ''Sustain'']"
  by (simp add: ccCascade_def cls_def)

text \<open>A string that includes \<open>suppression\<close> includes \<open>suppress\<close>.\<close>

lemma str_includes_append: "str_includes s (p @ q) \<Longrightarrow> str_includes s p"
  by (induction s) (auto dest: append_prefixD)

lemma str_includes_suppression:
  "str_includes s ''suppression'' \<Longrightarrow> str_includes s ''suppress''"
  using str_includes_append [of s "''suppress''" "''ion''"] by simp

lemma classifyCC_suppress:
  assumes "str_includes (loweredDescription sp) ''suppress''"
  shows "classifyCC sp = Some \<lparr>type = ''suppression'', ccType = ''Suppression'', cleansable = False,
                              qssOnly = Some True, color = ''hard'', cnote = None\<rparr>"
  using assms by (simp add: classifyCC_def loweredDescription_def)

lemma classifyCC_slow_first:
  assumes "str_includes (loweredDescription sp) ''slow''"
    and "\<not> str_includes (loweredDescription sp) ''suppress''"
    and "\<not> str_includes (loweredDescription sp) ''knock''"
    and "\<not> str_includes (loweredDescription sp) ''airborne''"
    and "\<not> str_includes (loweredName sp) ''knock''"
    and "\<not> str_includes (loweredDescription sp) ''pull''"
    and "\<not> str_includes (loweredDescription sp) ''drag''"
    and "\<not> str_includes (loweredDescription sp) ''nearsight''"
    and "\<not> str_includes (loweredDescription sp) ''blind zone''"
    and "\<not> str_includes (loweredDescription sp) ''stun''"
    and "\<not> str_includes (loweredDescription sp) ''root''"
    and "\<not> str_includes (loweredDescription sp) ''immobilize''"
    and "\<not> str_includes (loweredDescription sp) ''snare''"
    and "\<not> str_includes (loweredDescription sp) ''suppression''"
  shows "classifyCC sp = Some (cls ''soft'' ''Slow'' True None ''soft'')"
  using assms by (simp add: classifyCC_def loweredDescription_def loweredName_def)

lemma find_within_take:
  "x \<in> set (take n xs) \<Longrightarrow> P x \<Longrightarrow> \<exists>y \<in> set (take n xs). find P xs = Some y"
proof (induction xs arbitrary: n)
  case Nil
  then show ?case by simp
next
  case (Cons a xs)
  then show ?case by (cases n) auto
qed

lemma classifyCC_slow_not_later:
  assumes "str_includes (loweredDescription sp) ''slow''"
  shows "\<exists>d. classifyCC sp = Some d \<and>
           ccType d \<in> {''Suppression'', ''Airborne'', ''Pull'', ''Nearsight'', ''Stun'', ''Root'', ''Slow''}"
proof -
  let ?P = "\<lambda>pr :: (string \<Rightarrow> string \<Rightarrow> bool) \<times> classification.
              fst pr (loweredDescription sp) (loweredName sp)"
  have mem: "ccCascade ! 6 \<in> set (take 7 ccCascade)"
    by (simp add: ccCascade_def)
  have holds: "?P (ccCascade ! 6)"
    using assms by (simp add: ccCascade_def)
  from find_within_take [of "ccCascade ! 6" 7 ccCascade ?P, OF mem holds]
  obtain y where y: "y \<in> set (take 7 ccCascade)" and f: "find ?P ccCascade = Some y"
    by blast
  have "\<forall>y \<in> set (take 7 ccCascade).
          ccType (snd y) \<in> {''Suppression'', ''Airborne'', ''Pull'', ''Nearsight'', ''Stun'', ''Root'', ''Slow''}"
    by (simp add: ccCascade_def cls_def)
  with y have "ccType (snd y) \<in>
      {''Suppression'', ''Airborne'', ''Pull'', ''Nearsight'', ''Stun'', ''Root'', ''Slow''}"
    by blast
  moreover have "classifyCC sp = Some (snd y)"
    using f by (simp add: classifyCC_firstMatch firstMatch_def)
  ultimately show ?thesis by blast
qed
text \<open>
  Claim C4, as the code has it. \<open>classifyCC\<close> tests its keyword predicates on the
  lower-cased description (and name) in one fixed order and returns the result of the first
  that holds. The order is: suppression; airborne (knock); pull; nearsight; then stun,
  root, slow, charm, fear, taunt, silence, blind, disarm, cripple, sleep; then mobility,
  burst, stealth; then shield, poke; then sustain. A description containing \<open>suppress\<close>
  yields the Suppression result (\<open>qssOnly\<close> true, not cleansable) whatever else it
  contains, \<open>stun\<close> included. The slow predicate is tested before the charm predicate: a
  description containing \<open>slow\<close> never yields Charm; it yields Slow unless one of the six
  earlier predicates holds.
\<close>

theorem classifyCC_cascade_order:
  "classifyCC sp = firstMatch (loweredDescription sp) (loweredName sp)
   \<and> map (\<lambda>pr. ccType (snd pr)) ccCascade =
       [''Suppression'', ''Airborne'', ''Pull'', ''Nearsight'',
        ''Stun'', ''Root'', ''Slow'', ''Charm'', ''Fear'', ''Taunt'', ''Silence'', ''Blind'',
        ''Disarm'', ''Cripple'', ''Sleep'',
        ''Mobility'', ''Burst'', ''Stealth'', ''Shield'', ''Poke'', ''Sustain'']
   \<and> (str_includes (loweredDescription sp) ''suppress'' \<longrightarrow>
        classifyCC sp = Some \<lparr>type = ''suppression'', ccType = ''Suppression'', cleansable = False,
                               qssOnly = Some True, color = ''hard'', cnote = None\<rparr>)
   \<and> (str_includes (loweredDescription sp) ''slow'' \<longrightarrow>
        (\<exists>d. classifyCC sp = Some d \<and>
             ccType d \<in> {''Suppression'', ''Airborne'', ''Pull'', ''Nearsight'', ''Stun'', ''Root'', ''Slow''}))
   \<and> (str_includes (loweredDescription sp) ''slow''
        \<and> \<not> str_includes (loweredDescription sp) ''suppress''
        \<and> \<not> str_includes (loweredDescription sp) ''knock''
        \<and> \<not> str_includes (loweredDescription sp) ''airborne''
        \<and> \<not> str_includes (loweredName sp) ''knock''
        \<and> \<not> str_includes (loweredDescription sp) ''pull''
        \<and> \<not> str_includes (loweredDescription sp) ''drag''
        \<and> \<not> str_includes (loweredDescription sp) ''nearsight''
        \<and> \<not> str_includes (loweredDescription sp) ''blind zone''
        \<and> \<not> str_includes (loweredDescription sp) ''stun''
        \<and> \<not> str_includes (loweredDescription sp) ''root''
        \<and> \<not> str_includes (loweredDescription sp) ''immobilize''
        \<and> \<not> str_includes (loweredDescription sp) ''snare''
        \<longrightarrow> classifyCC sp = Some (cls ''soft'' ''Slow'' True None ''soft''))"
proof -
  have supp: "str_includes (loweredDescription sp) ''suppress'' \<longrightarrow>
        classifyCC sp = Some \<lparr>type = ''suppression'', ccType = ''Suppression'', cleansable = False,
                               qssOnly = Some True, color = ''hard'', cnote = None\<rparr>"
    using classifyCC_suppress by blast
  have later: "str_includes (loweredDescription sp) ''slow'' \<longrightarrow>
        (\<exists>d. classifyCC sp = Some d \<and>
             ccType d \<in> {''Suppression'', ''Airborne'', ''Pull'', ''Nearsight'', ''Stun'', ''Root'', ''Slow''})"
    using classifyCC_slow_not_later by blast
  have first: "str_includes (loweredDescription sp) ''slow''
        \<and> \<not> str_includes (loweredDescription sp) ''suppress''
        \<and> \<not> str_includes (loweredDescription sp) ''knock''
        \<and> \<not> str_includes (loweredDescription sp) ''airborne''
        \<and> \<not> str_includes (loweredName sp) ''knock''
        \<and> \<not> str_includes (loweredDescription sp) ''pull''
        \<and> \<not> str_includes (loweredDescription sp) ''drag''
        \<and> \<not> str_includes (loweredDescription sp) ''nearsight''
        \<and> \<not> str_includes (loweredDescription sp) ''blind zone''
        \<and> \<not> str_includes (loweredDescription sp) ''stun''
        \<and> \<not> str_includes (loweredDescription sp) ''root''
        \<and> \<not> str_includes (loweredDescription sp) ''immobilize''
        \<and> \<not> str_includes (loweredDescription sp) ''snare''
        \<longrightarrow> classifyCC sp = Some (cls ''soft'' ''Slow'' True None ''soft'')"
    using classifyCC_slow_first str_includes_suppression by blast
  show ?thesis
    using classifyCC_firstMatch [of sp] cascade_labels supp later first by blast
qed

lemma charmSlow_lowered:
  "loweredDescription \<lparr>spell_name = None, description = Some ''Charms and slows the target''\<rparr>
     = ''charms and slows the target''
   \<and> loweredName \<lparr>spell_name = None, description = Some ''Charms and slows the target''\<rparr> = ''''"
  by (simp add: loweredDescription_def loweredName_def toLowerCase_def char_of_def bit_Suc_0_iff)

lemma suppressStun_lowered:
  "loweredDescription \<lparr>spell_name = None, description = Some ''Suppresses and stuns the target''\<rparr>
     = ''suppresses and stuns the target''
   \<and> loweredName \<lparr>spell_name = None, description = Some ''Suppresses and stuns the target''\<rparr> = ''''"
  by (simp add: loweredDescription_def loweredName_def toLowerCase_def char_of_def bit_Suc_0_iff)

theorem classifyCC_cascade_order_witness:
  "str_includes ''charms and slows the target'' ''charm''
   \<and> str_includes ''charms and slows the target'' ''slow''
   \<and> classifyCC \<lparr>spell_name = None, description = Some ''Charms and slows the target''\<rparr>
       = Some (cls ''soft'' ''Slow'' True None ''soft'')
   \<and> str_includes ''suppresses and stuns the target'' ''suppress''
   \<and> str_includes ''suppresses and stuns the target'' ''stun''
   \<and> classifyCC \<lparr>spell_name = None, description = Some ''Suppresses and stuns the target''\<rparr>
       = Some \<lparr>type = ''suppression'', ccType = ''Suppression'', cleansable = False,
                qssOnly = Some True, color = ''hard'', cnote = None\<rparr>"
proof -
  let ?a = "\<lparr>spell_name = None, description = Some ''Charms and slows the target''\<rparr>"
  let ?b = "\<lparr>spell_name = None, description = Some ''Suppresses and stuns the target''\<rparr>"
  have ha: "str_includes (loweredDescription ?a) ''slow''
        \<and> \<not> str_includes (loweredDescription ?a) ''suppress''
        \<and> \<not> str_includes (loweredDescription ?a) ''knock''
        \<and> \<not> str_includes (loweredDescription ?a) ''airborne''
        \<and> \<not> str_includes (loweredName ?a) ''knock''
        \<and> \<not> str_includes (loweredDescription ?a) ''pull''
        \<and> \<not> str_includes (loweredDescription ?a) ''drag''
        \<and> \<not> str_includes (loweredDescription ?a) ''nearsight''
        \<and> \<not> str_includes (loweredDescription ?a) ''blind zone''
        \<and> \<not> str_includes (loweredDescription ?a) ''stun''
        \<and> \<not> str_includes (loweredDescription ?a) ''root''
        \<and> \<not> str_includes (loweredDescription ?a) ''immobilize''
        \<and> \<not> str_includes (loweredDescription ?a) ''snare''"
    by (simp add: charmSlow_lowered)
  have ra: "classifyCC ?a = Some (cls ''soft'' ''Slow'' True None ''soft'')"
    using classifyCC_cascade_order [of ?a] ha by blast
  have hb: "str_includes (loweredDescription ?b) ''suppress''"
    by (simp add: suppressStun_lowered)
  have rb: "classifyCC ?b = Some \<lparr>type = ''suppression'', ccType = ''Suppression'',
                                   cleansable = False, qssOnly = Some True, color = ''hard'',
                                   cnote = None\<rparr>"
    using classifyCC_cascade_order [of ?b] hb by blast
  have inc: "str_includes ''charms and slows the target'' ''charm''
       \<and> str_includes ''charms and slows the target'' ''slow''
       \<and> str_includes ''suppresses and stuns the target'' ''suppress''
       \<and> str_includes ''suppresses and stuns the target'' ''stun''"
    by simp
  show ?thesis using ra rb inc by blast
qed

text \<open>
  The claim as stated fails: on a description containing both \<open>charm\<close> and \<open>slow\<close> the
  result is Slow, not Charm.
\<close>

theorem classifyCC_charm_slow_counterexample:
  "map_option ccType
     (classifyCC \<lparr>spell_name = None, description = Some ''Charms and slows the target''\<rparr>)
     = Some ''Slow''
   \<and> map_option ccType
     (classifyCC \<lparr>spell_name = None, description = Some ''Charms and slows the target''\<rparr>)
     \<noteq> Some ''Charm''"
  by code_simp

text \<open>
  Claim C5, as the code has it. On the description \<open>Deals damage and stuns the target
  for 1.5 seconds\<close> the text classifier returns one classification with label \<open>Stun\<close>,
  cleansable, of kind \<open>soft\<close> (and colour \<open>soft\<close>): \<open>classifyCC\<close> types every cleansable
  crowd control as soft.
\<close>

theorem classifyCC_stun_example:
  "classifyCC \<lparr>spell_name = None,
               description = Some ''Deals damage and stuns the target for 1.5 seconds''\<rparr>
     = Some \<lparr>type = ''soft'', ccType = ''Stun'', cleansable = True,
              qssOnly = None, color = ''soft'', cnote = None\<rparr>"
  by code_simp

text \<open>The claim as stated fails: the kind of the result is not \<open>hard\<close>.\<close>

theorem classifyCC_stun_kind_counterexample:
  "map_option type
     (classifyCC \<lparr>spell_name = None,
                  description = Some ''Deals damage and stuns the target for 1.5 seconds''\<rparr>)
     \<noteq> Some ''hard''"
  by code_simp

section \<open>Properties of classifyAbility\<close>

lemma cascade_nonCC_type:
  "\<forall>d \<in> set (map snd ccCascade).
     ccType d \<in> set nonCCThreats \<longrightarrow> type d \<in> {''high'', ''medium'', ''low''}"
  by (simp add: ccCascade_def cls_def nonCCThreats_def)

text \<open>A text result accepted as a non-CC threat is of kind high, medium or low.\<close>

lemma classifyCC_nonCC_type:
  "classifyCC sp = Some d \<Longrightarrow> ccType d \<in> set nonCCThreats
     \<Longrightarrow> type d \<in> {''high'', ''medium'', ''low''}"
  using classifyCC_in_cascade cascade_nonCC_type by blast

text \<open>
  An ability without curated tags whose text matches no predicate: the result is empty
  when the fallback flag is off, and when the ability has a curated entry (whatever the
  flag).
\<close>

lemma classifyAbility_no_match_flag_off:
  "classifyCC sp = None \<Longrightarrow> summaryAbility sd i = None \<Longrightarrow> classifyAbility sp sd i False = []"
  by (simp add: classifyAbility_def)

lemma classifyAbility_no_match_entry:
  "classifyCC sp = None \<Longrightarrow> summaryAbility sd i = Some a
     \<Longrightarrow> classifyThreatTags (curatedTags a) = [] \<Longrightarrow> classifyAbility sp sd i allow = []"
  by (simp add: classifyAbility_def)

text \<open>With the flag on and no curated entry, the \<open>null\<close> of the text classifier is wrapped.\<close>

lemma classifyAbility_no_match_flag_on:
  "classifyCC sp = None \<Longrightarrow> summaryAbility sd i = None \<Longrightarrow> classifyAbility sp sd i True = [None]"
  by (simp add: classifyAbility_def)

text \<open>
  Claim C1. An ability with no curated tags and no keyword match is to yield the empty
  classification array for both values of the fallback flag. For the spell named
  \<open>Bolt\<close> with description \<open>Fires a bolt.\<close> and no summary data, \<open>classifyAbility\<close>
  returns the empty array when the flag is off, but the one-element array \<open>[null]\<close> when
  the flag is on (the call made by \<open>analyzeThreats\<close>); so it does for a spell with
  neither name nor description.
\<close>

theorem classifyAbility_wraps_null:
  "classifyCC \<lparr>spell_name = Some ''Bolt'', description = Some ''Fires a bolt.''\<rparr> = None
   \<and> classifyAbility \<lparr>spell_name = Some ''Bolt'', description = Some ''Fires a bolt.''\<rparr>
        None 0 False = []
   \<and> classifyAbility \<lparr>spell_name = Some ''Bolt'', description = Some ''Fires a bolt.''\<rparr>
        None 0 True = [None]
   \<and> length (classifyAbility \<lparr>spell_name = Some ''Bolt'', description = Some ''Fires a bolt.''\<rparr>
        None 0 True) = 1
   \<and> classifyAbility \<lparr>spell_name = None, description = None\<rparr> None 0 True = [None]"
  by code_simp

text \<open>
  Claim C2. When the ability has a curated summary entry and the tag-based classifier
  returns a non-empty result for its tags, \<open>classifyAbility\<close> returns exactly that
  result. When the ability has a curated entry and the tag-based result is empty, the
  result is either empty or the single text classification, and then that classification
  is one of the non-CC labels (Shield, Sustain, Burst, Poke, Stealth, Mobility) of kind
  high, medium or low: no crowd-control classification is taken from the text. With a
  curated entry the fallback flag has no effect.
\<close>

theorem classifyAbility_curated_precedence:
  assumes "summaryAbility sd i = Some a"
  shows "(classifyThreatTags (curatedTags a) \<noteq> [] \<longrightarrow>
            classifyAbility sp sd i allow = classifyThreatTags (curatedTags a))
       \<and> (classifyThreatTags (curatedTags a) = [] \<longrightarrow>
            classifyAbility sp sd i allow = [] \<or>
            (\<exists>d. classifyAbility sp sd i allow = [Some d] \<and> classifyCC sp = Some d
                 \<and> ccType d \<in> set nonCCThreats \<and> type d \<in> {''high'', ''medium'', ''low''}))
       \<and> classifyAbility sp sd i True = classifyAbility sp sd i False"
proof -
  have nonempty: "classifyThreatTags (curatedTags a) \<noteq> [] \<longrightarrow>
            classifyAbility sp sd i allow = classifyThreatTags (curatedTags a)"
    using assms by (simp add: classifyAbility_def)
  have empty: "classifyThreatTags (curatedTags a) = [] \<longrightarrow>
            classifyAbility sp sd i allow = [] \<or>
            (\<exists>d. classifyAbility sp sd i allow = [Some d] \<and> classifyCC sp = Some d
                 \<and> ccType d \<in> set nonCCThreats \<and> type d \<in> {''high'', ''medium'', ''low''})"
  proof
    assume e: "classifyThreatTags (curatedTags a) = []"
    show "classifyAbility sp sd i allow = [] \<or>
            (\<exists>d. classifyAbility sp sd i allow = [Some d] \<and> classifyCC sp = Some d
                 \<and> ccType d \<in> set nonCCThreats \<and> type d \<in> {''high'', ''medium'', ''low''})"
    proof (cases "classifyCC sp")
      case None
      then show ?thesis using assms e by (simp add: classifyAbility_def)
    next
      case (Some d)
      show ?thesis
      proof (cases "ccType d \<in> set nonCCThreats")
        case True
        then have "type d \<in> {''high'', ''medium'', ''low''}"
          using Some classifyCC_nonCC_type by blast
        moreover have "classifyAbility sp sd i allow = [Some d]"
          using assms e Some True by (simp add: classifyAbility_def)
        ultimately show ?thesis using Some True by blast
      next
        case False
        then show ?thesis using assms e Some by (simp add: classifyAbility_def)
      qed
    qed
  qed
  have flag: "classifyAbility sp sd i True = classifyAbility sp sd i False"
    using assms by (simp add: classifyAbility_def Let_def)
  show ?thesis using nonempty empty flag by blast
qed

text \<open>
  Two instances: an ability tagged \<open>STUN\<close> whose text speaks of a shield gets the Stun
  entry of the table; an ability with a curated entry without tags whose text speaks of a
  stun gets nothing, with either flag.
\<close>

theorem classifyAbility_curated_precedence_witness:
  "summaryAbility
      (Some \<lparr>sname = ''Champ'', slug = ''champ'',
             abilities = Some [Some \<lparr>threat = Some [''STUN'']\<rparr>, Some \<lparr>threat = Some []\<rparr>]\<rparr>) 0
     = Some \<lparr>threat = Some [''STUN'']\<rparr>
   \<and> classifyAbility \<lparr>spell_name = Some ''Q'', description = Some ''grants a shield''\<rparr>
      (Some \<lparr>sname = ''Champ'', slug = ''champ'',
             abilities = Some [Some \<lparr>threat = Some [''STUN'']\<rparr>, Some \<lparr>threat = Some []\<rparr>]\<rparr>) 0 True
     = [Some (cls ''hard'' ''Stun'' True None ''hard'')]
   \<and> classifyAbility \<lparr>spell_name = Some ''Q'', description = Some ''grants a shield''\<rparr>
      (Some \<lparr>sname = ''Champ'', slug = ''champ'',
             abilities = Some [Some \<lparr>threat = Some [''STUN'']\<rparr>, Some \<lparr>threat = Some []\<rparr>]\<rparr>) 0 False
     = [Some (cls ''hard'' ''Stun'' True None ''hard'')]
   \<and> summaryAbility
      (Some \<lparr>sname = ''Champ'', slug = ''champ'',
             abilities = Some [Some \<lparr>threat = Some [''STUN'']\<rparr>, Some \<lparr>threat = Some []\<rparr>]\<rparr>) 1
     = Some \<lparr>threat = Some []\<rparr>
   \<and> classifyCC \<lparr>spell_name = Some ''W'', description = Some ''stuns the target''\<rparr>
     = Some (cls ''soft'' ''Stun'' True None ''soft'')
   \<and> classifyAbility \<lparr>spell_name = Some ''W'', description = Some ''stuns the target''\<rparr>
      (Some \<lparr>sname = ''Champ'', slug = ''champ'',
             abilities = Some [Some \<lparr>threat = Some [''STUN'']\<rparr>, Some \<lparr>threat = Some []\<rparr>]\<rparr>) 1 True
     = []"
proof -
  let ?sd = "Some \<lparr>sname = ''Champ'', slug = ''champ'',
             abilities = Some [Some \<lparr>threat = Some [''STUN'']\<rparr>, Some \<lparr>threat = Some []\<rparr>]\<rparr>"
  let ?sp = "\<lparr>spell_name = Some ''Q'', description = Some ''grants a shield''\<rparr>"
  let ?sw = "\<lparr>spell_name = Some ''W'', description = Some ''stuns the target''\<rparr>"
  have h: "summaryAbility ?sd 0 = Some \<lparr>threat = Some [''STUN'']\<rparr>"
    by (simp add: summaryAbility_def)
  have t: "classifyThreatTags (curatedTags \<lparr>threat = Some [''STUN'']\<rparr>)
             = [Some (cls ''hard'' ''Stun'' True None ''hard'')]"
    by (simp add: curatedTags_def classifyThreatTags_def priorityOrder_def ccClassifications_def
        ccClassificationsTable_def)
  have r1: "classifyAbility ?sp ?sd 0 True = [Some (cls ''hard'' ''Stun'' True None ''hard'')]"
    using classifyAbility_curated_precedence [OF h, of ?sp True] t by simp
  have r2: "classifyAbility ?sp ?sd 0 False = [Some (cls ''hard'' ''Stun'' True None ''hard'')]"
    using classifyAbility_curated_precedence [OF h, of ?sp False] t by simp
  have h': "summaryAbility ?sd 1 = Some \<lparr>threat = Some []\<rparr>"
    by (simp add: summaryAbility_def)
  have t': "classifyThreatTags (curatedTags \<lparr>threat = Some []\<rparr>) = []"
    by (simp add: curatedTags_def classifyThreatTags_def)
  have c: "classifyCC ?sw = Some (cls ''soft'' ''Stun'' True None ''soft'')"
    by code_simp
  have n: "ccType (cls ''soft'' ''Stun'' True None ''soft'') \<notin> set nonCCThreats"
    by (simp add: cls_def nonCCThreats_def)
  have r3: "classifyAbility ?sw ?sd 1 True = []"
    using classifyAbility_curated_precedence [OF h', of ?sw True] t' c n by auto
  show ?thesis using h r1 r2 h' c r3 by simp
qed

section \<open>The field qssOnly\<close>

lemma classifyThreatTags_elements:
  "x \<in> set (classifyThreatTags tags) \<Longrightarrow> x \<in> set (map ccClassifications priorityOrder)"
  by (auto simp: classifyThreatTags_filter)

lemma priority_entries_qssOnly:
  "\<forall>x \<in> set (map ccClassifications priorityOrder).
     \<exists>c. x = Some c
        \<and> (qssOnly c = Some True) = (type c = ''suppression'')
        \<and> (type c = ''suppression'') = (ccType c = ''Suppression'')"
  by (simp add: priorityOrder_def ccClassifications_def ccClassificationsTable_def cls_def)

lemma cascade_qssOnly:
  "\<forall>c \<in> set (map snd ccCascade).
     (qssOnly c = Some True) = (type c = ''suppression'')
     \<and> (type c = ''suppression'') = (ccType c = ''Suppression'')"
  by (simp add: ccCascade_def cls_def)

text \<open>Every element of the tag-based result is a classification object.\<close>

lemma classifyThreatTags_no_undefined: "None \<notin> set (classifyThreatTags tags)"
  using classifyThreatTags_elements priority_entries_qssOnly by blast

text \<open>
  Claim C8, as the code has it. On every classification produced by the tag-based
  classifier or by the text classifier, \<open>qssOnly\<close> is \<open>true\<close> exactly when the
  classification is the suppression one; on every other classification the field is
  \<open>false\<close> or absent (\<open>undefined\<close>), never \<open>true\<close>.
\<close>

theorem qssOnly_suppression_only:
  assumes "Some c \<in> set (classifyThreatTags tags) \<or> classifyCC sp = Some c"
  shows "(qssOnly c = Some True) = (type c = ''suppression'')
       \<and> (type c = ''suppression'') = (ccType c = ''Suppression'')
       \<and> (type c \<noteq> ''suppression'' \<longrightarrow> qssOnly c = Some False \<or> qssOnly c = None)"
proof -
  have main: "(qssOnly c = Some True) = (type c = ''suppression'')
       \<and> (type c = ''suppression'') = (ccType c = ''Suppression'')"
    using assms
  proof
    assume "Some c \<in> set (classifyThreatTags tags)"
    then have "Some c \<in> set (map ccClassifications priorityOrder)"
      by (rule classifyThreatTags_elements)
    with priority_entries_qssOnly show ?thesis by blast
  next
    assume "classifyCC sp = Some c"
    then have "c \<in> set (map snd ccCascade)" by (rule classifyCC_in_cascade)
    with cascade_qssOnly show ?thesis by blast
  qed
  have "type c \<noteq> ''suppression'' \<longrightarrow> qssOnly c = Some False \<or> qssOnly c = None"
  proof
    assume "type c \<noteq> ''suppression''"
    with main have "qssOnly c \<noteq> Some True" by blast
    then show "qssOnly c = Some False \<or> qssOnly c = None"
      by (cases "qssOnly c") auto
  qed
  with main show ?thesis by blast
qed

theorem qssOnly_suppression_only_witness:
  "Some (cls ''suppression'' ''Suppression'' False (Some True) ''hard'')
     \<in> set (classifyThreatTags [''STUN'', ''SUPPRESSION''])
   \<and> qssOnly (cls ''suppression'' ''Suppression'' False (Some True) ''hard'') = Some True
   \<and> Some (cls ''hard'' ''Stun'' True None ''hard'')
     \<in> set (classifyThreatTags [''STUN'', ''SUPPRESSION''])
   \<and> qssOnly (cls ''hard'' ''Stun'' True None ''hard'') \<noteq> Some True"
proof -
  have v: "classifyThreatTags [''STUN'', ''SUPPRESSION''] =
      [Some (cls ''suppression'' ''Suppression'' False (Some True) ''hard''),
       Some (cls ''hard'' ''Stun'' True None ''hard'')]"
    by (simp add: classifyThreatTags_def priorityOrder_def ccClassifications_def
        ccClassificationsTable_def)
  have m1: "Some (cls ''suppression'' ''Suppression'' False (Some True) ''hard'')
              \<in> set (classifyThreatTags [''STUN'', ''SUPPRESSION''])"
    by (simp add: v)
  have m2: "Some (cls ''hard'' ''Stun'' True None ''hard'')
              \<in> set (classifyThreatTags [''STUN'', ''SUPPRESSION''])"
    by (simp add: v)
  have t1: "type (cls ''suppression'' ''Suppression'' False (Some True) ''hard'') = ''suppression''"
    by (simp add: cls_def)
  have t2: "type (cls ''hard'' ''Stun'' True None ''hard'') \<noteq> ''suppression''"
    by (simp add: cls_def)
  have q1: "qssOnly (cls ''suppression'' ''Suppression'' False (Some True) ''hard'') = Some True"
    using qssOnly_suppression_only
            [of "cls ''suppression'' ''Suppression'' False (Some True) ''hard''"
                "[''STUN'', ''SUPPRESSION'']"] m1 t1
    by blast
  have q2: "qssOnly (cls ''hard'' ''Stun'' True None ''hard'') \<noteq> Some True"
    using qssOnly_suppression_only
            [of "cls ''hard'' ''Stun'' True None ''hard''" "[''STUN'', ''SUPPRESSION'']"] m2 t2
    by blast
  show ?thesis using m1 m2 q1 q2 by blast
qed

text \<open>
  The claim as stated fails: the Stun classification of either classifier has no
  \<open>qssOnly\<close> field at all, so the field is not the boolean \<open>false\<close> there.
\<close>

theorem qssOnly_absent_counterexample:
  "map (map_option qssOnly) (classifyThreatTags [''STUN'']) = [Some None]
   \<and> map (map_option qssOnly) (classifyThreatTags [''STUN'']) \<noteq> [Some (Some False)]
   \<and> map_option qssOnly
        (classifyCC \<lparr>spell_name = None, description = Some ''stuns the target''\<rparr>)
       = Some None"
  by code_simp

section \<open>Ordering of the output\<close>

lemma priorityOrder_classes_sorted:
  "sorted (map (\<lambda>t. classOfClassification (ccClassifications t)) priorityOrder)"
  by (simp add: priorityOrder_def ccClassifications_def ccClassificationsTable_def cls_def
      classOfClassification_def threatClass_def)

text \<open>
  In the web application the tag-based result lists the classes in the order of the
  guarantee, for every tag array.
\<close>

lemma classifyThreatTags_classes_sorted:
  "sorted (map classOfClassification (classifyThreatTags tags))"
proof -
  have "map classOfClassification (classifyThreatTags tags) =
          map (\<lambda>t. classOfClassification (ccClassifications t))
              (filter (\<lambda>t. t \<in> set tags) priorityOrder)"
    by (simp add: classifyThreatTags_filter)
  then show ?thesis
    using priorityOrder_classes_sorted sorted_filter by metis
qed

lemma overlay_priority_order_head:
  "take 6 PRIORITY_ORDER = [''SUPPRESSION'', ''NEARSIGHT'', ''KNOCKUP'', ''KNOCKBACK'', ''PULL'', ''STUN'']"
  by (simp add: PRIORITY_ORDER_def)

text \<open>
  Claim C6. The output is to list the most threatening class first, in the web
  application and in the overlay. The overlay's \<open>sortByPriority\<close> orders by the kind
  alone, with \<open>hard\<close> before \<open>suppression\<close>, and by label within a kind; the overlay's
  own priority list is not consulted. For a champion whose first ability is tagged
  \<open>SUPPRESSION\<close> and whose second is tagged \<open>STUN\<close>, \<open>analyzeChampion\<close> returns Stun
  (cleansable hard) before Suppression, whatever the collation; for abilities tagged
  \<open>KNOCKUP\<close> and \<open>CHARM\<close> it returns Charm (cleansable) before Knockup (not cleansable).
\<close>

theorem analyzeChampion_stun_before_suppression:
  "map label (analyzeChampion lc
      (Some \<lparr>o_id = ''Champ'', o_name = ''Champ'', o_tags = None\<rparr>)
      (Some \<lparr>champions = Some [\<lparr>sname = ''Champ'', slug = ''champ'',
                abilities = Some [Some \<lparr>threat = Some [''SUPPRESSION'']\<rparr>,
                                  Some \<lparr>threat = Some [''STUN'']\<rparr>]\<rparr>],
              keyed = Map.empty\<rparr>))
     = [''Stun'', ''Suppression'']
   \<and> map classOfThreat (analyzeChampion lc
      (Some \<lparr>o_id = ''Champ'', o_name = ''Champ'', o_tags = None\<rparr>)
      (Some \<lparr>champions = Some [\<lparr>sname = ''Champ'', slug = ''champ'',
                abilities = Some [Some \<lparr>threat = Some [''SUPPRESSION'']\<rparr>,
                                  Some \<lparr>threat = Some [''STUN'']\<rparr>]\<rparr>],
              keyed = Map.empty\<rparr>))
     = [1, 0]
   \<and> map label (analyzeChampion localeCompareAscii
      (Some \<lparr>o_id = ''Champ'', o_name = ''Champ'', o_tags = None\<rparr>)
      (Some \<lparr>champions = Some [\<lparr>sname = ''Champ'', slug = ''champ'',
                abilities = Some [Some \<lparr>threat = Some [''KNOCKUP'']\<rparr>,
                                  Some \<lparr>threat = Some [''CHARM'']\<rparr>]\<rparr>],
              keyed = Map.empty\<rparr>))
     = [''Charm'', ''Knockup'']"
  by (simp add: analyzeChampion_def findChampionSummary_def collectSummaryThreats_def
      analyzeAbility_def CC_CLASSIFICATIONS_def CC_CLASSIFICATIONS_TABLE_def thr_def
      pushUnseen_def abilityKeyAt_def sortByPriority_def sortBy_def compareThreats_def
      typeOrder_def classOfThreat_def threatClass_def)

section \<open>Champion-level aggregation\<close>

lemma foldl_invariant:
  assumes "I s" and "\<And>s x. I s \<Longrightarrow> I (f s x)"
  shows "I (foldl f s xs)"
  using assms(1)
proof (induction xs arbitrary: s)
  case Nil
  then show ?case by simp
next
  case (Cons x xs)
  then show ?case using assms(2) by simp
qed

subsection \<open>The web application\<close>

lemma pushThreat_invariant: "seenInvariant st \<Longrightarrow> seenInvariant (pushThreat st x)"
  by (cases x) (auto simp: seenInvariant_def pushThreat_def)

lemma analyzeThreats_loop_invariant:
  "seenInvariant st \<Longrightarrow>
   seenInvariant (foldl (\<lambda>st (i, sp). foldl pushThreat st (classifyAbility sp sd i True)) st xs)"
proof (rule foldl_invariant)
  fix s :: "threatEntry list \<times> string set" and x :: "nat \<times> spell"
  assume "seenInvariant s"
  then have "seenInvariant (foldl pushThreat s (classifyAbility (snd x) sd (fst x) True))"
    by (rule foldl_invariant) (rule pushThreat_invariant)
  then show "seenInvariant (case x of (i, sp) \<Rightarrow> foldl pushThreat s (classifyAbility sp sd i True))"
    by (simp add: case_prod_beta)
qed

lemma analyzeThreats_distinct: "distinct (map alabel (analyzeThreats cs det champ))"
proof -
  have "seenInvariant ([], {})" by (simp add: seenInvariant_def)
  then have "distinct (map alabel (fst
      (foldl (\<lambda>st (i, sp). foldl pushThreat st
                (classifyAbility sp (lookupSummary cs (champ_name champ) (champ_id champ)) i True))
         ([], {}) (enumerate 0 (case spells det of Some ss \<Rightarrow> ss | None \<Rightarrow> [])))))"
    using analyzeThreats_loop_invariant seenInvariant_def by blast
  then show ?thesis
    by (simp add: analyzeThreats_def Let_def take_map [symmetric])
qed

lemma analyzeThreats_length: "length (analyzeThreats cs det champ) \<le> 10"
  by (simp add: analyzeThreats_def Let_def)

subsection \<open>The overlay\<close>

lemma pushUnseen_invariant: "seenInvariantOverlay st \<Longrightarrow> seenInvariantOverlay (pushUnseen st t)"
  by (auto simp: seenInvariantOverlay_def pushUnseen_def)

lemma collectSummaryThreats_invariant: "seenInvariantOverlay (collectSummaryThreats summary)"
proof -
  have init: "seenInvariantOverlay ([], {})" by (simp add: seenInvariantOverlay_def)
  have loop: "seenInvariantOverlay
      (foldl (\<lambda>st (index, ability). foldl pushUnseen st (analyzeAbility ability index)) ([], {}) xs)"
    for xs :: "(nat \<times> abilitySummary option) list"
    using init
  proof (rule foldl_invariant)
    fix s :: "threat list \<times> string set" and x :: "nat \<times> abilitySummary option"
    assume "seenInvariantOverlay s"
    then have "seenInvariantOverlay (foldl pushUnseen s (analyzeAbility (snd x) (fst x)))"
      by (rule foldl_invariant) (rule pushUnseen_invariant)
    then show "seenInvariantOverlay
        (case x of (index, ability) \<Rightarrow> foldl pushUnseen s (analyzeAbility ability index))"
      by (simp add: case_prod_beta)
  qed
  show ?thesis
    using init loop by (simp add: collectSummaryThreats_def split: option.splits)
qed

text \<open>The insertion sort keeps the elements: it only reorders them.\<close>

lemma insertBy_set: "set (insertBy cmp x xs) = insert x (set xs)"
  by (induction xs) auto

lemma insertBy_distinct_map:
  "distinct (map f (insertBy cmp x xs)) = (f x \<notin> f ` set xs \<and> distinct (map f xs))"
  by (induction xs) (auto simp: insertBy_set)

lemma sortBy_set: "set (sortBy cmp xs) = set xs"
  by (induction xs) (simp_all add: sortBy_def insertBy_set)

lemma sortBy_distinct_map: "distinct (map f (sortBy cmp xs)) = distinct (map f xs)"
proof (induction xs)
  case Nil
  then show ?case by (simp add: sortBy_def)
next
  case (Cons x xs)
  have "sortBy cmp (x # xs) = insertBy cmp x (sortBy cmp xs)" by (simp add: sortBy_def)
  then show ?case using Cons by (simp add: insertBy_distinct_map sortBy_set)
qed

lemma insertBy_length: "length (insertBy cmp x xs) = Suc (length xs)"
  by (induction xs) auto

lemma sortBy_length: "length (sortBy cmp xs) = length xs"
  by (induction xs) (simp_all add: sortBy_def insertBy_length)

lemma analyzeChampion_distinct: "distinct (map label (analyzeChampion lc champ cs))"
proof (cases champ)
  case None
  then show ?thesis by (simp add: analyzeChampion_def)
next
  case (Some ch)
  let ?s = "collectSummaryThreats (findChampionSummary ch cs)"
  let ?w = "if fst ?s = []
            then foldl pushUnseen ?s (analyzeFromTags (case o_tags ch of Some ts \<Rightarrow> ts | None \<Rightarrow> []))
            else ?s"
  have "seenInvariantOverlay ?s" by (rule collectSummaryThreats_invariant)
  moreover from this have "seenInvariantOverlay
      (foldl pushUnseen ?s (analyzeFromTags (case o_tags ch of Some ts \<Rightarrow> ts | None \<Rightarrow> [])))"
    by (rule foldl_invariant) (rule pushUnseen_invariant)
  ultimately have "seenInvariantOverlay ?w" by simp
  then have "distinct (map label (fst ?w))" by (simp add: seenInvariantOverlay_def)
  then have "distinct (map label (sortByPriority lc (fst ?w)))"
    by (simp add: sortByPriority_def sortBy_distinct_map)
  then show ?thesis using Some by (simp add: analyzeChampion_def Let_def)
qed

lemma shield_spells_value:
  "map alabel (analyzeThreats Map.empty
        \<lparr>spells = Some [\<lparr>spell_name = Some ''Q'', description = Some ''grants a shield''\<rparr>,
                        \<lparr>spell_name = Some ''W'', description = Some ''shields an ally''\<rparr>,
                        \<lparr>spell_name = Some ''E'', description = Some ''gains a shield''\<rparr>,
                        \<lparr>spell_name = Some ''R'', description = Some ''a large shield''\<rparr>]\<rparr>
        \<lparr>champ_id = ''Champ'', champ_name = ''Champ'', champ_tags = []\<rparr>) = [''Shield'']"
proof -
  have c: "classifyCC \<lparr>spell_name = Some ''Q'', description = Some ''grants a shield''\<rparr>
             = Some (cls ''medium'' ''Shield'' False None ''medium'')"
          "classifyCC \<lparr>spell_name = Some ''W'', description = Some ''shields an ally''\<rparr>
             = Some (cls ''medium'' ''Shield'' False None ''medium'')"
          "classifyCC \<lparr>spell_name = Some ''E'', description = Some ''gains a shield''\<rparr>
             = Some (cls ''medium'' ''Shield'' False None ''medium'')"
          "classifyCC \<lparr>spell_name = Some ''R'', description = Some ''a large shield''\<rparr>
             = Some (cls ''medium'' ''Shield'' False None ''medium'')"
    by code_simp+
  show ?thesis
    by (simp add: analyzeThreats_def lookupSummary_def classifyAbility_def summaryAbility_def
        c nonCCThreats_def pushThreat_def cls_def getThreatIcon_def)
qed

text \<open>
  Claim C7, as the code has it. Both champion-level aggregations return at most one entry
  per label: \<open>analyzeThreats\<close> of the web application, which also cuts its result to 10
  entries, and \<open>analyzeChampion\<close> of the overlay, which has no cap. Four abilities that
  each produce the label \<open>Shield\<close> yield a single \<open>Shield\<close> entry.
\<close>

theorem aggregation_dedup_by_label:
  "distinct (map alabel (analyzeThreats cs det champ))
   \<and> length (analyzeThreats cs det champ) \<le> 10
   \<and> distinct (map label (analyzeChampion lc ochamp ocs))
   \<and> map alabel (analyzeThreats Map.empty
        \<lparr>spells = Some [\<lparr>spell_name = Some ''Q'', description = Some ''grants a shield''\<rparr>,
                        \<lparr>spell_name = Some ''W'', description = Some ''shields an ally''\<rparr>,
                        \<lparr>spell_name = Some ''E'', description = Some ''gains a shield''\<rparr>,
                        \<lparr>spell_name = Some ''R'', description = Some ''a large shield''\<rparr>]\<rparr>
        \<lparr>champ_id = ''Champ'', champ_name = ''Champ'', champ_tags = []\<rparr>) = [''Shield'']"
  using analyzeThreats_distinct analyzeThreats_length analyzeChampion_distinct
    shield_spells_value by blast

lemma eleven_labels_value:
  "map label (analyzeChampion localeCompareAscii
      (Some \<lparr>o_id = ''Champ'', o_name = ''Champ'', o_tags = None\<rparr>)
      (Some \<lparr>champions = Some [\<lparr>sname = ''Champ'', slug = ''champ'',
                abilities = Some [Some \<lparr>threat = Some [''SUPPRESSION'', ''KNOCKUP'', ''STUN'']\<rparr>,
                                  Some \<lparr>threat = Some [''ROOT'', ''SLOW'', ''SILENCE'']\<rparr>,
                                  Some \<lparr>threat = Some [''DASH'', ''STEALTH'', ''SHIELD'']\<rparr>,
                                  Some \<lparr>threat = Some [''SUSTAIN'', ''GHOST'']\<rparr>]\<rparr>],
              keyed = Map.empty\<rparr>))
   = [''Knockup'', ''Root'', ''Stun'', ''Suppression'', ''Silence'', ''Slow'',
      ''Dash'', ''Stealth'', ''Shield'', ''Ghost'', ''Sustain'']"
  by (simp add: analyzeChampion_def findChampionSummary_def collectSummaryThreats_def
      analyzeAbility_def CC_CLASSIFICATIONS_def CC_CLASSIFICATIONS_TABLE_def thr_def
      pushUnseen_def abilityKeyAt_def sortByPriority_def sortBy_def compareThreats_def
      typeOrder_def)

text \<open>
  The claim as stated fails for the overlay: a champion whose curated abilities carry
  eleven tags with eleven different labels gets eleven entries.
\<close>

theorem analyzeChampion_uncapped_counterexample:
  "length (analyzeChampion localeCompareAscii
      (Some \<lparr>o_id = ''Champ'', o_name = ''Champ'', o_tags = None\<rparr>)
      (Some \<lparr>champions = Some [\<lparr>sname = ''Champ'', slug = ''champ'',
                abilities = Some [Some \<lparr>threat = Some [''SUPPRESSION'', ''KNOCKUP'', ''STUN'']\<rparr>,
                                  Some \<lparr>threat = Some [''ROOT'', ''SLOW'', ''SILENCE'']\<rparr>,
                                  Some \<lparr>threat = Some [''DASH'', ''STEALTH'', ''SHIELD'']\<rparr>,
                                  Some \<lparr>threat = Some [''SUSTAIN'', ''GHOST'']\<rparr>]\<rparr>],
              keyed = Map.empty\<rparr>)) = 11
   \<and> \<not> length (analyzeChampion localeCompareAscii
      (Some \<lparr>o_id = ''Champ'', o_name = ''Champ'', o_tags = None\<rparr>)
      (Some \<lparr>champions = Some [\<lparr>sname = ''Champ'', slug = ''champ'',
                abilities = Some [Some \<lparr>threat = Some [''SUPPRESSION'', ''KNOCKUP'', ''STUN'']\<rparr>,
                                  Some \<lparr>threat = Some [''ROOT'', ''SLOW'', ''SILENCE'']\<rparr>,
                                  Some \<lparr>threat = Some [''DASH'', ''STEALTH'', ''SHIELD'']\<rparr>,
                                  Some \<lparr>threat = Some [''SUSTAIN'', ''GHOST'']\<rparr>]\<rparr>],
              keyed = Map.empty\<rparr>)) \<le> 10"
proof -
  have "length (map label (analyzeChampion localeCompareAscii
      (Some \<lparr>o_id = ''Champ'', o_name = ''Champ'', o_tags = None\<rparr>)
      (Some \<lparr>champions = Some [\<lparr>sname = ''Champ'', slug = ''champ'',
                abilities = Some [Some \<lparr>threat = Some [''SUPPRESSION'', ''KNOCKUP'', ''STUN'']\<rparr>,
                                  Some \<lparr>threat = Some [''ROOT'', ''SLOW'', ''SILENCE'']\<rparr>,
                                  Some \<lparr>threat = Some [''DASH'', ''STEALTH'', ''SHIELD'']\<rparr>,
                                  Some \<lparr>threat = Some [''SUSTAIN'', ''GHOST'']\<rparr>]\<rparr>],
              keyed = Map.empty\<rparr>))) = 11"
    by (simp only: eleven_labels_value) simp
  then show ?thesis by simp
qed

section \<open>Role tags\<close>

text \<open>
  \<open>classifyAbility\<close> has no champion among its arguments, and \<open>analyzeThreats\<close> reads
  \<open>champion.name\<close> and \<open>champion.id\<close> only.
\<close>

lemma analyzeThreats_ignores_tags:
  "analyzeThreats cs det (champ\<lparr>champ_tags := ts\<rparr>) = analyzeThreats cs det champ"
  by (simp add: analyzeThreats_def)

lemma findChampionSummary_ignores_tags:
  "findChampionSummary (ch\<lparr>o_tags := ts\<rparr>) cs = findChampionSummary ch cs"
  by (simp add: findChampionSummary_def split: option.splits)

text \<open>
  \<open>analyzeChampion\<close> reads the role tags only in its fallback, taken when the curated
  summary has produced no threat.
\<close>

lemma analyzeChampion_ignores_tags:
  assumes "fst (collectSummaryThreats (findChampionSummary ch cs)) \<noteq> []"
  shows "analyzeChampion lc (Some (ch\<lparr>o_tags := ts\<rparr>)) cs = analyzeChampion lc (Some ch) cs"
  using assms by (simp add: analyzeChampion_def Let_def findChampionSummary_ignores_tags)

text \<open>
  Claim C9, as the code has it. The web application's classification never depends on the
  champion's role tags. The overlay's \<open>analyzeChampion\<close> does not depend on them whenever
  the curated summary yields at least one threat for the champion; when it yields none,
  the role tags Assassin, Fighter, Tank and Mage are turned into fallback entries.
\<close>

theorem role_tags_only_in_fallback:
  "analyzeThreats wcs det (champ\<lparr>champ_tags := wts\<rparr>) = analyzeThreats wcs det champ
   \<and> (fst (collectSummaryThreats (findChampionSummary ch cs)) \<noteq> [] \<longrightarrow>
        analyzeChampion lc (Some (ch\<lparr>o_tags := ts\<rparr>)) cs = analyzeChampion lc (Some ch) cs)
   \<and> (fst (collectSummaryThreats (findChampionSummary ch cs)) = [] \<longrightarrow>
        analyzeChampion lc (Some ch) cs =
          sortByPriority lc (fst (foldl pushUnseen (collectSummaryThreats (findChampionSummary ch cs))
            (analyzeFromTags (case o_tags ch of Some ts \<Rightarrow> ts | None \<Rightarrow> [])))))"
  using analyzeThreats_ignores_tags analyzeChampion_ignores_tags
  by (simp add: analyzeChampion_def Let_def)

lemma stun_summary_threats:
  "fst (collectSummaryThreats (findChampionSummary
      \<lparr>o_id = ''Champ'', o_name = ''Champ'', o_tags = Some [''Mage'']\<rparr>
      (Some \<lparr>champions = None,
              keyed = [''Champ'' \<mapsto> \<lparr>sname = ''Champ'', slug = ''champ'',
                         abilities = Some [Some \<lparr>threat = Some [''STUN'']\<rparr>]\<rparr>]\<rparr>)))
   = [\<lparr>ttype = ''hard'', label = ''Stun'', tcleansable = True, tqssOnly = None, tcolor = ''hard'',
       abilityIndex = Some 0, abilityKey = Some ''Q''\<rparr>]"
  by (simp add: findChampionSummary_def collectSummaryThreats_def analyzeAbility_def
      CC_CLASSIFICATIONS_def CC_CLASSIFICATIONS_TABLE_def thr_def pushUnseen_def abilityKeyAt_def)

theorem role_tags_only_in_fallback_witness:
  "fst (collectSummaryThreats (findChampionSummary
      \<lparr>o_id = ''Champ'', o_name = ''Champ'', o_tags = Some [''Mage'']\<rparr>
      (Some \<lparr>champions = None,
              keyed = [''Champ'' \<mapsto> \<lparr>sname = ''Champ'', slug = ''champ'',
                         abilities = Some [Some \<lparr>threat = Some [''STUN'']\<rparr>]\<rparr>]\<rparr>))) \<noteq> []
   \<and> analyzeChampion localeCompareAscii
        (Some \<lparr>o_id = ''Champ'', o_name = ''Champ'', o_tags = Some [''Assassin'', ''Tank'']\<rparr>)
        (Some \<lparr>champions = None,
              keyed = [''Champ'' \<mapsto> \<lparr>sname = ''Champ'', slug = ''champ'',
                         abilities = Some [Some \<lparr>threat = Some [''STUN'']\<rparr>]\<rparr>]\<rparr>)
     = analyzeChampion localeCompareAscii
        (Some \<lparr>o_id = ''Champ'', o_name = ''Champ'', o_tags = Some [''Mage'']\<rparr>)
        (Some \<lparr>champions = None,
              keyed = [''Champ'' \<mapsto> \<lparr>sname = ''Champ'', slug = ''champ'',
                         abilities = Some [Some \<lparr>threat = Some [''STUN'']\<rparr>]\<rparr>]\<rparr>)"
proof -
  let ?ch = "\<lparr>o_id = ''Champ'', o_name = ''Champ'', o_tags = Some [''Mage'']\<rparr>"
  let ?cs = "Some \<lparr>champions = None,
              keyed = [''Champ'' \<mapsto> \<lparr>sname = ''Champ'', slug = ''champ'',
                         abilities = Some [Some \<lparr>threat = Some [''STUN'']\<rparr>]\<rparr>]\<rparr>"
  have h: "fst (collectSummaryThreats (findChampionSummary ?ch ?cs)) \<noteq> []"
    by (simp only: stun_summary_threats) simp
  have "analyzeChampion localeCompareAscii (Some (?ch\<lparr>o_tags := Some [''Assassin'', ''Tank'']\<rparr>)) ?cs
          = analyzeChampion localeCompareAscii (Some ?ch) ?cs"
    using role_tags_only_in_fallback [of _ _ _ _ ?ch ?cs localeCompareAscii "Some [''Assassin'', ''Tank'']"] h
    by blast
  then show ?thesis using h by simp
qed

text \<open>
  The claim as stated fails: without curated data, two champions that differ in their role
  tags only get different results.
\<close>

theorem role_tags_fallback_counterexample:
  "analyzeChampion localeCompareAscii
      (Some \<lparr>o_id = ''Champ'', o_name = ''Champ'', o_tags = Some [''Assassin'']\<rparr>) None
     = [\<lparr>ttype = ''high'', label = ''Assassin'', tcleansable = False, tqssOnly = None,
          tcolor = ''high'', abilityIndex = None, abilityKey = None\<rparr>]
   \<and> analyzeChampion localeCompareAscii
      (Some \<lparr>o_id = ''Champ'', o_name = ''Champ'', o_tags = Some [''Marksman'']\<rparr>) None
     = []
   \<and> analyzeChampion localeCompareAscii
      (Some \<lparr>o_id = ''Champ'', o_name = ''Champ'', o_tags = Some [''Assassin'']\<rparr>) None
     \<noteq> analyzeChampion localeCompareAscii
      (Some \<lparr>o_id = ''Champ'', o_name = ''Champ'', o_tags = Some [''Marksman'']\<rparr>) None"
  by (simp add: analyzeChampion_def findChampionSummary_def collectSummaryThreats_def
      analyzeFromTags_def thr_def pushUnseen_def sortByPriority_def sortBy_def)

end
